theory Spec2Isabelle
  imports Complex_Main
begin

section \<open>Arrays and library operations\<close>

text \<open>
  Cell values are IEEE doubles in the source; they are modelled as rationals, so
  arithmetic is exact. A two-dimensional array is a list of rows, a three-dimensional
  array a list of planes indexed \<open>[z][y][x]\<close>, as the source indexes them.

  The source calls \<open>scipy.ndimage.convolve\<close>, \<open>np.random.choice\<close>,
  \<open>np.random.random\<close>, \<open>np.linspace\<close> and \<open>np.clip\<close>. These library functions are
  modelled here from their documented behaviour, for the argument shapes the source
  passes. The random generator is made explicit: an operation that draws random numbers
  takes the uniform samples of that call, each in \<open>[0, 1)\<close>, as an argument.
\<close>

type_synonym array2 = "rat list list"
type_synonym array3 = "rat list list list"

datatype py_error = KeyError | ValueError

text \<open>
  The two-dimensional generator only ever holds \<open>float64\<close> arrays. The three-dimensional
  one holds a \<open>float64\<close> array after construction and after \<open>seed_center\<close>, and an
  \<open>int64\<close> array after \<open>seed_random\<close>, which draws from the integers 0 and 1; its
  arrays therefore carry their element type.
\<close>

datatype np_dtype = Float64 | Int64

record ndarray3 =
  dtype :: np_dtype
  cells :: array3

definition float_array :: "array3 \<Rightarrow> ndarray3" where
  "float_array c = \<lparr>dtype = Float64, cells = c\<rparr>"

definition int_array :: "array3 \<Rightarrow> ndarray3" where
  "int_array c = \<lparr>dtype = Int64, cells = c\<rparr>"

definition astype :: "np_dtype \<Rightarrow> rat \<Rightarrow> rat" where
  \<comment> \<open>a computed double stored into an array of the given element type: kept as it is,
      or truncated toward zero\<close>
  "astype t v =
     (case t of
        Float64 \<Rightarrow> v
      | Int64 \<Rightarrow> rat_of_int (if 0 \<le> v then \<lfloor>v\<rfloor> else \<lceil>v\<rceil>))"

definition shaped2 :: "nat \<Rightarrow> nat \<Rightarrow> array2 \<Rightarrow> bool" where
  "shaped2 h w g \<longleftrightarrow> length g = h \<and> list_all (\<lambda>row. length row = w) g"

definition shaped3 :: "nat \<Rightarrow> nat \<Rightarrow> nat \<Rightarrow> array3 \<Rightarrow> bool" where
  "shaped3 d h w g \<longleftrightarrow> length g = d \<and> list_all (shaped2 h w) g"

definition nrows :: "'a list list \<Rightarrow> nat" where
  "nrows g = length g"

definition ncols :: "'a list list \<Rightarrow> nat" where
  "ncols g = (case g of [] \<Rightarrow> 0 | row # _ \<Rightarrow> length row)"

definition tabulate2 :: "nat \<Rightarrow> nat \<Rightarrow> (nat \<Rightarrow> nat \<Rightarrow> rat) \<Rightarrow> array2" where
  "tabulate2 h w f = map (\<lambda>i. map (\<lambda>j. f i j) [0..<w]) [0..<h]"

definition tabulate3 :: "nat \<Rightarrow> nat \<Rightarrow> nat \<Rightarrow> (nat \<Rightarrow> nat \<Rightarrow> nat \<Rightarrow> rat) \<Rightarrow> array3" where
  "tabulate3 d h w f = map (\<lambda>z. tabulate2 h w (f z)) [0..<d]"

definition clip :: "rat \<Rightarrow> rat \<Rightarrow> rat \<Rightarrow> rat" where
  \<comment> \<open>\<open>np.clip(a, lo, hi)\<close> on one element\<close>
  "clip a lo hi = min (max a lo) hi"

definition count_active :: "array2 \<Rightarrow> nat" where
  \<comment> \<open>\<open>np.sum(grid > 0)\<close>\<close>
  "count_active g = length (filter (\<lambda>c. c > 0) (concat g))"

definition wrap :: "nat \<Rightarrow> nat \<Rightarrow> nat \<Rightarrow> nat" where
  \<comment> \<open>the input index that kernel index \<open>a\<close> of a size-3 axis reads at output index
      \<open>i\<close>, on an axis of extent \<open>n\<close>, under \<open>mode='wrap'\<close>: a convolution reads
      offset \<open>1 - a\<close>, and the index is taken modulo the extent\<close>
  "wrap n i a = nat ((int i + 1 - int a) mod int n)"

definition convolve2 :: "array2 \<Rightarrow> array2 \<Rightarrow> array2" where
  \<comment> \<open>\<open>scipy.ndimage.convolve(g, k, mode='wrap')\<close> for a 3x3 kernel \<open>k\<close> and a
      \<open>float64\<close> grid; the sum is exact here, where the library adds in doubles\<close>
  "convolve2 g k =
     tabulate2 (nrows g) (ncols g) (\<lambda>i j.
       sum_list (map (\<lambda>a.
         sum_list (map (\<lambda>b.
           k ! a ! b * g ! wrap (nrows g) i a ! wrap (ncols g) j b) [0, 1, 2])) [0, 1, 2]))"

definition convolve3 :: "ndarray3 \<Rightarrow> array3 \<Rightarrow> array3" where
  \<comment> \<open>the cells of \<open>scipy.ndimage.convolve(g, k, mode='wrap')\<close> for a 3x3x3 kernel
      \<open>k\<close>. The result has the element type of \<open>g\<close>: on an \<open>int64\<close> grid every
      weighted sum is truncated to an integer. The sum itself is exact here, where the
      library adds in doubles\<close>
  "convolve3 g k =
     tabulate3 (length (cells g)) (nrows (hd (cells g))) (ncols (hd (cells g))) (\<lambda>z y x.
       astype (dtype g)
         (sum_list (map (\<lambda>a.
            sum_list (map (\<lambda>b.
              sum_list (map (\<lambda>c.
                k ! a ! b ! c *
                cells g ! wrap (length (cells g)) z a ! wrap (nrows (hd (cells g))) y b
                  ! wrap (ncols (hd (cells g))) x c)
              [0, 1, 2])) [0, 1, 2])) [0, 1, 2])))"

definition np_random_choice :: "rat \<times> rat \<Rightarrow> rat \<times> rat \<Rightarrow> py_error + (rat \<Rightarrow> rat)" where
  \<comment> \<open>\<open>np.random.choice([a0, a1], size, p=[p0, p1])\<close>: the probabilities are checked
      (a negative entry or a sum other than 1 raises ValueError); then every cell takes
      the entry whose cumulative-probability interval holds the cell's uniform sample\<close>
  "np_random_choice a p =
     (if fst p < 0 \<or> snd p < 0 then Inl ValueError
      else if fst p + snd p \<noteq> 1 then Inl ValueError
      else Inr (\<lambda>u. if u < fst p then fst a else snd a))"

section \<open>Pattern rules\<close>

text \<open>
  One entry of the \<open>patterns\<close> dictionary. The colour entries (\<open>color_map\<close>,
  \<open>colors\<close>) are read by the plotting methods only and are left out.
\<close>

record 'k pattern =
  kernel :: 'k
  survive_range :: "rat \<times> rat"
  birth_range :: "rat \<times> rat"

section \<open>The two-dimensional generator\<close>

record generator =
  width :: nat
  height :: nat
  grid :: array2

definition patterns :: "string \<Rightarrow> array2 pattern option" where
  "patterns name =
     (if name = ''coral'' then
        Some \<lparr>kernel = [[1, 1, 1], [1, 0, 1], [1, 1, 1]],
              survive_range = (2, 3), birth_range = (3, 3)\<rparr>
      else if name = ''lichen'' then
        Some \<lparr>kernel = [[0, 1, 0], [1, 0, 1], [0, 1, 0]],
              survive_range = (1, 3), birth_range = (2, 3)\<rparr>
      else if name = ''mycelium'' then
        Some \<lparr>kernel = [[1, 1, 1], [1, 0, 1], [1, 1, 1]],
              survive_range = (2, 4), birth_range = (2, 3)\<rparr>
      else None)"

definition seed_random :: "rat \<Rightarrow> (nat \<Rightarrow> rat) \<Rightarrow> generator \<Rightarrow> py_error + generator" where
  \<comment> \<open>\<open>u\<close> holds the uniform samples of this call, in row-major order\<close>
  "seed_random density u s =
     (case np_random_choice (0, 1) (1 - density, density) of
        Inl e \<Rightarrow> Inl e
      | Inr pick \<Rightarrow>
          Inr (s\<lparr>grid := tabulate2 (height s) (width s) (\<lambda>i j. pick (u (i * width s + j)))\<rparr>))"

definition next_grid2 :: "array2 pattern \<Rightarrow> array2 \<Rightarrow> array2" where
  \<comment> \<open>the neighbour count and the survival and birth masks of \<open>grow\<close>\<close>
  "next_grid2 p g =
     (let (survive_low, survive_high) = survive_range p;
          (birth_low, birth_high) = birth_range p;
          neighbors = convolve2 g (kernel p)
      in tabulate2 (nrows g) (ncols g) (\<lambda>i j.
           if (g ! i ! j > 0 \<and> neighbors ! i ! j \<ge> survive_low
                 \<and> neighbors ! i ! j \<le> survive_high)
              \<or> (g ! i ! j = 0 \<and> neighbors ! i ! j \<ge> birth_low
                 \<and> neighbors ! i ! j \<le> birth_high)
           then 1 else 0))"

definition add_noise :: "(nat \<Rightarrow> rat) \<Rightarrow> array2 \<Rightarrow> array2" where
  \<comment> \<open>\<open>np.clip(next_grid + np.random.random(shape) * 0.1, 0, 1)\<close>; \<open>u\<close> holds the
      uniform samples in row-major order\<close>
  "add_noise u g =
     tabulate2 (nrows g) (ncols g) (\<lambda>i j. clip (g ! i ! j + u (i * ncols g + j) * (1 / 10)) 0 1)"

definition grow :: "string \<Rightarrow> (nat \<Rightarrow> rat) \<Rightarrow> generator \<Rightarrow> py_error + (generator \<times> nat)" where
  \<comment> \<open>returns the updated generator and the number of active cells\<close>
  "grow pattern_type u s =
     (case patterns pattern_type of
        None \<Rightarrow> Inl KeyError
      | Some p \<Rightarrow>
          (let next_grid = next_grid2 p (grid s);
               next_grid = (if pattern_type = ''mycelium'' then add_noise u next_grid
                            else next_grid)
           in Inr (s\<lparr>grid := next_grid\<rparr>, count_active next_grid)))"

definition linspace :: "rat \<Rightarrow> rat \<Rightarrow> nat \<Rightarrow> nat \<Rightarrow> rat" where
  \<comment> \<open>element \<open>i\<close> of \<open>np.linspace(start, stop, num)\<close>\<close>
  "linspace start stop num i =
     (if num = 1 then start else start + rat_of_nat i * ((stop - start) / rat_of_nat (num - 1)))"

definition moisture_gradient :: "nat \<Rightarrow> nat \<Rightarrow> nat \<Rightarrow> nat \<Rightarrow> rat" where
  \<comment> \<open>cell \<open>(i, j)\<close> of \<open>np.linspace(0.5, 1, height)\<close> tiled over the columns\<close>
  "moisture_gradient h w i j = linspace (1 / 2) 1 h i"

definition light_gradient :: "nat \<Rightarrow> nat \<Rightarrow> nat \<Rightarrow> nat \<Rightarrow> rat" where
  "light_gradient h w i j =
     (let center_y = h div 2; center_x = w div 2;
          y = int i - int center_y; x = int j - int center_x
      in clip (1 - (1 / 2) * rat_of_int (x * x + y * y) / (rat_of_nat (w * h) / 4)) (3 / 10) 1)"

definition add_environment :: "string \<Rightarrow> generator \<Rightarrow> generator" where
  \<comment> \<open>\<open>self.grid *= gradient\<close>; the grid has shape \<open>(height, width)\<close>, which every
      method of the class keeps\<close>
  "add_environment factor s =
     (if factor = ''moisture'' then
        s\<lparr>grid := tabulate2 (height s) (width s)
                     (\<lambda>i j. grid s ! i ! j * moisture_gradient (height s) (width s) i j)\<rparr>
      else if factor = ''light'' then
        s\<lparr>grid := tabulate2 (height s) (width s)
                     (\<lambda>i j. grid s ! i ! j * light_gradient (height s) (width s) i j)\<rparr>
      else s)"

section \<open>The three-dimensional generator\<close>

record pattern3d =
  width3 :: nat
  height3 :: nat
  depth :: nat
  grid3 :: ndarray3
  history :: "ndarray3 list"

definition set3 :: "array3 \<Rightarrow> nat \<times> nat \<times> nat \<Rightarrow> rat \<Rightarrow> array3" where
  \<comment> \<open>\<open>kernel[a, b, c] = v\<close>\<close>
  "set3 k pos v = (case pos of (a, b, c) \<Rightarrow> k[a := (k ! a)[b := (k ! a ! b)[c := v]]])"

definition sum3 :: "array3 \<Rightarrow> rat" where
  \<comment> \<open>\<open>np.sum(kernel)\<close>\<close>
  "sum3 k = sum_list (map (\<lambda>plane. sum_list (map sum_list plane)) k)"

definition create_3d_kernel :: "string \<Rightarrow> array3" where
  \<comment> \<open>for a shape name other than the three below the source divides zeros by zero
      and returns NaN entries, where this model returns zeros; no rule uses such a name\<close>
  "create_3d_kernel shape =
     (let kernel = replicate 3 (replicate 3 (replicate 3 0));
          faces = [(1, 1, 0), (1, 0, 1), (0, 1, 1), (1, 1, 2), (1, 2, 1), (2, 1, 1)];
          kernel =
            (if shape = ''sphere'' then set3 (foldl (\<lambda>k pos. set3 k pos 1) kernel faces) (1, 1, 1) 0
             else if shape = ''diamond'' then
               set3 (foldl (\<lambda>k pos. set3 k pos 1) kernel faces) (1, 1, 1) 0
             else if shape = ''cube'' then
               set3 (replicate 3 (replicate 3 (replicate 3 1))) (1, 1, 1) 0
             else kernel)
      in map (map (map (\<lambda>v. v / sum3 kernel))) kernel)"

definition patterns3d :: "string \<Rightarrow> array3 pattern option" where
  "patterns3d name =
     (if name = ''coral'' then
        Some \<lparr>kernel = create_3d_kernel ''sphere'',
              survive_range = (4, 6), birth_range = (4, 5)\<rparr>
      else if name = ''mycelium'' then
        Some \<lparr>kernel = create_3d_kernel ''diamond'',
              survive_range = (3, 6), birth_range = (3, 4)\<rparr>
      else if name = ''crystal'' then
        Some \<lparr>kernel = create_3d_kernel ''cube'',
              survive_range = (4, 7), birth_range = (5, 6)\<rparr>
      else None)"

definition seed_random3d :: "rat \<Rightarrow> (nat \<Rightarrow> rat) \<Rightarrow> pattern3d \<Rightarrow> py_error + pattern3d" where
  \<comment> \<open>\<open>u\<close> holds the uniform samples of this call, in the array's storage order; the
      source draws from \<open>[0, 1]\<close>, so the seeded array is \<open>int64\<close>\<close>
  "seed_random3d density u s =
     (case np_random_choice (0, 1) (1 - density, density) of
        Inl e \<Rightarrow> Inl e
      | Inr pick \<Rightarrow>
          (let g = int_array (tabulate3 (depth s) (height3 s) (width3 s)
                     (\<lambda>z y x. pick (u ((z * height3 s + y) * width3 s + x))))
           in Inr (s\<lparr>grid3 := g, history := [g]\<rparr>)))"

definition seed_center3d :: "rat \<Rightarrow> pattern3d \<Rightarrow> pattern3d" where
  \<comment> \<open>\<open>sqrt(d2) <= radius\<close> is written without the square root:
      \<open>0 <= radius\<close> and \<open>d2 <= radius * radius\<close>, which is the same test for an
      integer radius; the array comes from \<open>np.zeros\<close> and is \<open>float64\<close>\<close>
  "seed_center3d radius s =
     (let center_x = width3 s div 2; center_y = height3 s div 2; center_z = depth s div 2;
          g = float_array (tabulate3 (depth s) (height3 s) (width3 s) (\<lambda>z y x.
                if 0 \<le> radius \<and>
                   rat_of_int ((int x - int center_x)\<^sup>2 + (int y - int center_y)\<^sup>2
                               + (int z - int center_z)\<^sup>2) \<le> radius * radius
                then 1 else 0))
      in s\<lparr>grid3 := g, history := [g]\<rparr>)"

definition next_grid3 :: "array3 pattern \<Rightarrow> ndarray3 \<Rightarrow> ndarray3" where
  \<comment> \<open>the neighbour field and the survival and birth masks of one pass of the loop;
      \<open>np.zeros_like\<close> gives the next grid the element type of the current one\<close>
  "next_grid3 p g =
     (let neighbors = convolve3 g (kernel p);
          (survive_low, survive_high) = survive_range p;
          (birth_low, birth_high) = birth_range p
      in \<lparr>dtype = dtype g,
          cells = tabulate3 (length (cells g)) (nrows (hd (cells g))) (ncols (hd (cells g)))
            (\<lambda>z y x.
               if (cells g ! z ! y ! x > 0 \<and> neighbors ! z ! y ! x \<ge> survive_low
                     \<and> neighbors ! z ! y ! x \<le> survive_high)
                  \<or> (cells g ! z ! y ! x = 0 \<and> neighbors ! z ! y ! x \<ge> birth_low
                     \<and> neighbors ! z ! y ! x \<le> birth_high)
               then 1 else 0)\<rparr>)"

primrec grow_loop :: "array3 pattern \<Rightarrow> nat \<Rightarrow> pattern3d \<Rightarrow> pattern3d" where
  "grow_loop p 0 s = s"
| "grow_loop p (Suc n) s =
     grow_loop p n
       (let next_grid = next_grid3 p (grid3 s)
        in s\<lparr>grid3 := next_grid, history := history s @ [next_grid]\<rparr>)"

definition grow3d :: "string \<Rightarrow> int \<Rightarrow> pattern3d \<Rightarrow> py_error + pattern3d" where
  \<comment> \<open>\<open>range(generations)\<close> is empty for a count below one\<close>
  "grow3d pattern_type generations s =
     (case patterns3d pattern_type of
        None \<Rightarrow> Inl KeyError
      | Some p \<Rightarrow> Inr (grow_loop p (nat generations) s))"

section \<open>Properties of kernels and test grids\<close>

definition sum2 :: "array2 \<Rightarrow> rat" where
  "sum2 k = sum_list (map sum_list k)"

definition nonneg2 :: "array2 \<Rightarrow> bool" where
  "nonneg2 k = list_all (list_all (\<lambda>v. 0 \<le> v)) k"

definition nonneg3 :: "array3 \<Rightarrow> bool" where
  "nonneg3 k = list_all nonneg2 k"

definition single2 :: "nat \<Rightarrow> nat \<Rightarrow> nat \<Rightarrow> nat \<Rightarrow> array2" where
  \<comment> \<open>the grid of shape \<open>(h, w)\<close> whose only live cell is \<open>(i0, j0)\<close>\<close>
  "single2 h w i0 j0 = tabulate2 h w (\<lambda>i j. if i = i0 \<and> j = j0 then 1 else 0)"

definition single3 :: "nat \<Rightarrow> nat \<Rightarrow> nat \<Rightarrow> nat \<Rightarrow> nat \<Rightarrow> nat \<Rightarrow> array3" where
  \<comment> \<open>the grid of shape \<open>(d, h, w)\<close> whose only live cell is \<open>(z0, y0, x0)\<close>\<close>
  "single3 d h w z0 y0 x0 =
     tabulate3 d h w (\<lambda>z y x. if z = z0 \<and> y = y0 \<and> x = x0 then 1 else 0)"


definition constant_samples :: "rat \<Rightarrow> nat \<Rightarrow> rat" where
  \<comment> \<open>a random source whose every uniform sample is \<open>c\<close>\<close>
  "constant_samples c n = c"

section \<open>Repeated growth\<close>

text \<open>
  The driver calls \<open>grow\<close> once per generation. \<open>grids_after\<close> lists the grids
  the two-dimensional generator holds after each of \<open>n\<close> calls, call \<open>k\<close> drawing
  its samples from \<open>us k\<close>; \<open>grids3\<close> lists the grids of \<open>n\<close> passes of the
  three-dimensional loop; \<open>grow_calls\<close> is a run of three-dimensional \<open>grow\<close>
  calls of one generation each, one per listed rule name.
\<close>

primrec grids_after :: "string \<Rightarrow> (nat \<Rightarrow> nat \<Rightarrow> rat) \<Rightarrow> nat \<Rightarrow> generator \<Rightarrow> array2 list" where
  "grids_after pattern_type us 0 s = []"
| "grids_after pattern_type us (Suc n) s =
     (case grow pattern_type (us 0) s of
        Inl e \<Rightarrow> []
      | Inr (s', active) \<Rightarrow> grid s' # grids_after pattern_type (\<lambda>k. us (Suc k)) n s')"

primrec grids3 :: "array3 pattern \<Rightarrow> nat \<Rightarrow> ndarray3 \<Rightarrow> ndarray3 list" where
  "grids3 p 0 g = []"
| "grids3 p (Suc n) g = next_grid3 p g # grids3 p n (next_grid3 p g)"

primrec grow_calls :: "string list \<Rightarrow> pattern3d \<Rightarrow> py_error + pattern3d" where
  "grow_calls [] s = Inr s"
| "grow_calls (pattern_type # rest) s =
     (case grow3d pattern_type 1 s of
        Inl e \<Rightarrow> Inl e
      | Inr s' \<Rightarrow> grow_calls rest s')"

section \<open>Basic facts\<close>

lemma nth_tabulate2: "i < h \<Longrightarrow> j < w \<Longrightarrow> tabulate2 h w f ! i ! j = f i j"
  by (simp add: tabulate2_def)

lemma shaped2_tabulate2: "shaped2 h w (tabulate2 h w f)"
  by (simp add: shaped2_def tabulate2_def list_all_iff)

lemma shaped2_nrows: "shaped2 h w g \<Longrightarrow> nrows g = h"
  by (simp add: shaped2_def nrows_def)

lemma shaped2_ncols: "shaped2 h w g \<Longrightarrow> 0 < h \<Longrightarrow> ncols g = w"
  by (cases g) (auto simp add: shaped2_def ncols_def)

lemma nth_tabulate3: "z < d \<Longrightarrow> y < h \<Longrightarrow> x < w \<Longrightarrow> tabulate3 d h w f ! z ! y ! x = f z y x"
  by (simp add: tabulate3_def nth_tabulate2)

lemma shaped3_tabulate3: "shaped3 d h w (tabulate3 d h w f)"
  by (simp add: shaped3_def tabulate3_def list_all_iff shaped2_tabulate2)

lemma shaped3_hd: "shaped3 d h w g \<Longrightarrow> 0 < d \<Longrightarrow> shaped2 h w (hd g)"
  by (cases g) (auto simp add: shaped3_def)

lemma float_array_simps [simp]:
  "dtype (float_array c) = Float64" "cells (float_array c) = c"
  by (simp_all add: float_array_def)

lemma int_array_simps [simp]:
  "dtype (int_array c) = Int64" "cells (int_array c) = c"
  by (simp_all add: int_array_def)

lemma sphere_kernel: "create_3d_kernel ''sphere'' =
  [[[0, 0, 0], [0, 1 / 6, 0], [0, 0, 0]],
   [[0, 1 / 6, 0], [1 / 6, 0, 1 / 6], [0, 1 / 6, 0]],
   [[0, 0, 0], [0, 1 / 6, 0], [0, 0, 0]]]"
  by code_simp

lemma diamond_kernel: "create_3d_kernel ''diamond'' = create_3d_kernel ''sphere''"
  by (simp add: create_3d_kernel_def)

lemma cube_kernel: "create_3d_kernel ''cube'' =
  [[[1 / 26, 1 / 26, 1 / 26], [1 / 26, 1 / 26, 1 / 26], [1 / 26, 1 / 26, 1 / 26]],
   [[1 / 26, 1 / 26, 1 / 26], [1 / 26, 0, 1 / 26], [1 / 26, 1 / 26, 1 / 26]],
   [[1 / 26, 1 / 26, 1 / 26], [1 / 26, 1 / 26, 1 / 26], [1 / 26, 1 / 26, 1 / 26]]]"
  by code_simp

section \<open>The generation step\<close>

text \<open>
  C1. One generation step sets a cell to 1 exactly where the cell is alive
  (value above 0) and its neighbour field lies in the inclusive survive range,
  or the cell is dead (value equal to 0) and its neighbour field lies in the inclusive
  birth range; every other cell becomes 0. The neighbour field is the convolution of the
  current grid, so the update is synchronous. In the two-dimensional generator this is the
  grid before the mycelium noise; \<open>grow\<close> stores it (with the noise on top for
  mycelium only), and the three-dimensional \<open>grow\<close> stores and records it.
\<close>

theorem grow_synchronous_rule:
  fixes p :: "array2 pattern" and q :: "array3 pattern"
  assumes "shaped2 h w g" and "i < h" and "j < w"
    and "shaped3 d h' w' (cells g')" and "z < d" and "y < h'" and "x < w'"
  shows "next_grid2 p g ! i ! j =
           (if (g ! i ! j > 0 \<and> fst (survive_range p) \<le> convolve2 g (kernel p) ! i ! j
                  \<and> convolve2 g (kernel p) ! i ! j \<le> snd (survive_range p))
               \<or> (g ! i ! j = 0 \<and> fst (birth_range p) \<le> convolve2 g (kernel p) ! i ! j
                  \<and> convolve2 g (kernel p) ! i ! j \<le> snd (birth_range p))
            then 1 else 0)
       \<and> cells (next_grid3 q g') ! z ! y ! x =
           (if (cells g' ! z ! y ! x > 0 \<and> fst (survive_range q) \<le> convolve3 g' (kernel q) ! z ! y ! x
                  \<and> convolve3 g' (kernel q) ! z ! y ! x \<le> snd (survive_range q))
               \<or> (cells g' ! z ! y ! x = 0 \<and> fst (birth_range q) \<le> convolve3 g' (kernel q) ! z ! y ! x
                  \<and> convolve3 g' (kernel q) ! z ! y ! x \<le> snd (birth_range q))
            then 1 else 0)
       \<and> (patterns pt = Some p \<longrightarrow>
           (\<exists>a. grow pt u s =
              Inr (s\<lparr>grid := (if pt = ''mycelium'' then add_noise u (next_grid2 p (grid s))
                               else next_grid2 p (grid s))\<rparr>, a)))
       \<and> (patterns3d pt' = Some q \<longrightarrow>
           grow3d pt' 1 s' =
             Inr (s'\<lparr>grid3 := next_grid3 q (grid3 s'),
                     history := history s' @ [next_grid3 q (grid3 s')]\<rparr>))"
proof -
  from assms have dims: "nrows g = h" "ncols g = w"
    by (simp_all add: shaped2_nrows shaped2_ncols)
  from assms have "shaped2 h' w' (hd (cells g'))" by (simp add: shaped3_hd)
  with assms have dims3: "length (cells g') = d" "nrows (hd (cells g')) = h'"
      "ncols (hd (cells g')) = w'"
    by (simp_all add: shaped2_nrows shaped2_ncols shaped3_def)
  have two: "next_grid2 p g ! i ! j =
           (if (g ! i ! j > 0 \<and> fst (survive_range p) \<le> convolve2 g (kernel p) ! i ! j
                  \<and> convolve2 g (kernel p) ! i ! j \<le> snd (survive_range p))
               \<or> (g ! i ! j = 0 \<and> fst (birth_range p) \<le> convolve2 g (kernel p) ! i ! j
                  \<and> convolve2 g (kernel p) ! i ! j \<le> snd (birth_range p))
            then 1 else 0)"
    using assms(2,3) by (simp add: next_grid2_def dims nth_tabulate2 split_beta Let_def)
  have three: "cells (next_grid3 q g') ! z ! y ! x =
           (if (cells g' ! z ! y ! x > 0 \<and> fst (survive_range q) \<le> convolve3 g' (kernel q) ! z ! y ! x
                  \<and> convolve3 g' (kernel q) ! z ! y ! x \<le> snd (survive_range q))
               \<or> (cells g' ! z ! y ! x = 0 \<and> fst (birth_range q) \<le> convolve3 g' (kernel q) ! z ! y ! x
                  \<and> convolve3 g' (kernel q) ! z ! y ! x \<le> snd (birth_range q))
            then 1 else 0)"
    using assms(5,6,7) by (simp add: next_grid3_def dims3 nth_tabulate3 split_beta Let_def)
  have calls: "patterns pt = Some p \<longrightarrow>
           (\<exists>a. grow pt u s =
              Inr (s\<lparr>grid := (if pt = ''mycelium'' then add_noise u (next_grid2 p (grid s))
                               else next_grid2 p (grid s))\<rparr>, a))"
    by (simp add: grow_def Let_def)
  have calls3: "patterns3d pt' = Some q \<longrightarrow>
           grow3d pt' 1 s' =
             Inr (s'\<lparr>grid3 := next_grid3 q (grid3 s'),
                     history := history s' @ [next_grid3 q (grid3 s')]\<rparr>)"
    by (simp add: grow3d_def Let_def)
  from two three calls calls3 show ?thesis by blast
qed


theorem grow_synchronous_rule_witness:
  "shaped2 3 3 [[0, 1, 0], [0, 1, 0], [0, 1, 0]] \<and> (0::nat) < 3 \<and> (1::nat) < 3
   \<and> shaped3 1 1 1 (cells (float_array [[[1]]])) \<and> (0::nat) < 1
   \<and> patterns ''coral'' = Some (the (patterns ''coral''))
   \<and> patterns3d ''crystal'' = Some (the (patterns3d ''crystal''))
   \<and> next_grid2 (the (patterns ''coral'')) [[0, 1, 0], [0, 1, 0], [0, 1, 0]] ! 0 ! 1 = 1
   \<and> cells (next_grid3 (the (patterns3d ''crystal'')) (float_array [[[1]]])) ! 0 ! 0 ! 0 = 0
   \<and> (\<exists>a. grow ''coral'' (\<lambda>_. 0)
              \<lparr>width = 3, height = 3, grid = [[0, 1, 0], [0, 1, 0], [0, 1, 0]]\<rparr>
          = Inr (\<lparr>width = 3, height = 3, grid = [[1, 1, 1], [1, 1, 1], [1, 1, 1]]\<rparr>, a))
   \<and> grow3d ''crystal'' 1
        \<lparr>width3 = 1, height3 = 1, depth = 1, grid3 = float_array [[[1]]], history = [float_array [[[1]]]]\<rparr>
       = Inr \<lparr>width3 = 1, height3 = 1, depth = 1, grid3 = float_array [[[0]]],
              history = [float_array [[[1]]], float_array [[[0]]]]\<rparr>"
proof -
  have h1: "shaped2 3 3 [[0, 1, 0], [0, 1, 0], [0, 1, 0]]"
    by (simp add: shaped2_def)
  have h2: "(0::nat) < 3" and h3: "(1::nat) < 3" and h5: "(0::nat) < 1"
    by simp_all
  have h4: "shaped3 1 1 1 (cells (float_array [[[1]]]))"
    by (simp add: shaped3_def shaped2_def)
  have n2: "next_grid2 (the (patterns ''coral'')) [[0, 1, 0], [0, 1, 0], [0, 1, 0]]
              = [[1, 1, 1], [1, 1, 1], [1, 1, 1]]"
    by code_simp
  have n3: "next_grid3 (the (patterns3d ''crystal'')) (float_array [[[1]]]) = float_array [[[0]]]"
    by code_simp
  have c2: "convolve2 [[0, 1, 0], [0, 1, 0], [0, 1, 0]] (kernel (the (patterns ''coral'')))
              = [[3, 2, 3], [3, 2, 3], [3, 2, 3]]"
    by code_simp
  have c3: "convolve3 (float_array [[[1]]]) (kernel (the (patterns3d ''crystal''))) = [[[1]]]"
    by code_simp
  have p2: "patterns ''coral'' = Some (the (patterns ''coral''))"
    by (simp add: patterns_def)
  have p3: "patterns3d ''crystal'' = Some (the (patterns3d ''crystal''))"
    by (simp add: patterns3d_def)
  from grow_synchronous_rule [OF h1 h2 h3 h4 h5 h5 h5,
      where p = "the (patterns ''coral'')" and q = "the (patterns3d ''crystal'')"
        and pt = "''coral''" and pt' = "''crystal''" and u = "\<lambda>_. 0"
        and s = "\<lparr>width = 3, height = 3, grid = [[0, 1, 0], [0, 1, 0], [0, 1, 0]]\<rparr>"
        and s' = "\<lparr>width3 = 1, height3 = 1, depth = 1, grid3 = float_array [[[1]]], history = [float_array [[[1]]]]\<rparr>"]
  show ?thesis
    using h1 h4 p2 p3 by (simp add: c2 c3 n2 n3)
qed

section \<open>Kernels\<close>

lemma sphere_weights:
  "nonneg3 (create_3d_kernel ''sphere'')" "create_3d_kernel ''sphere'' ! 1 ! 1 ! 1 = 0"
  "sum3 (create_3d_kernel ''sphere'') = 1"
  by (simp_all add: sphere_kernel nonneg3_def nonneg2_def sum3_def)

lemma cube_weights:
  "nonneg3 (create_3d_kernel ''cube'')" "create_3d_kernel ''cube'' ! 1 ! 1 ! 1 = 0"
  "sum3 (create_3d_kernel ''cube'') = 1"
  by (simp_all add: cube_kernel nonneg3_def nonneg2_def sum3_def)

lemma patterns3d_kernel:
  "patterns3d name = Some q \<Longrightarrow>
     kernel q = create_3d_kernel ''sphere'' \<or> kernel q = create_3d_kernel ''cube''"
  by (auto simp add: patterns3d_def diamond_kernel split: if_splits)

text \<open>
  C2 as stated: every kernel of every rule, two- and three-dimensional, sums to 1.
  The Moore kernel of the two-dimensional coral rule sums to 8.
\<close>

theorem coral_kernel_sum_counterexample:
  "sum2 (kernel (the (patterns ''coral''))) = 8 \<and> sum2 (kernel (the (patterns ''coral''))) \<noteq> 1"
  by (simp add: patterns_def sum2_def)

text \<open>
  C2 as amended: every kernel of every rule has non-negative weights and centre weight 0.
  The three-dimensional kernels are normalised and sum to 1; the two-dimensional kernels
  are 0/1 masks that sum to 8 (coral, mycelium) and 4 (lichen), so the two-dimensional
  neighbour field is a raw count.
\<close>

theorem kernel_weights:
  "(patterns name = Some p \<longrightarrow>
      nonneg2 (kernel p) \<and> kernel p ! 1 ! 1 = 0
      \<and> sum2 (kernel p) = (if name = ''lichen'' then 4 else 8))
   \<and> (patterns3d name = Some q \<longrightarrow>
      nonneg3 (kernel q) \<and> kernel q ! 1 ! 1 ! 1 = 0 \<and> sum3 (kernel q) = 1)"
proof -
  have two: "patterns name = Some p \<longrightarrow>
      nonneg2 (kernel p) \<and> kernel p ! 1 ! 1 = 0
      \<and> sum2 (kernel p) = (if name = ''lichen'' then 4 else 8)"
    by (auto simp add: patterns_def nonneg2_def sum2_def split: if_splits)
  have three: "patterns3d name = Some q \<longrightarrow>
      nonneg3 (kernel q) \<and> kernel q ! 1 ! 1 ! 1 = 0 \<and> sum3 (kernel q) = 1"
    using patterns3d_kernel [of name q] sphere_weights cube_weights by auto
  from two three show ?thesis ..
qed

theorem kernel_weights_witness:
  "patterns ''lichen'' = Some (the (patterns ''lichen''))
   \<and> patterns3d ''coral'' = Some (the (patterns3d ''coral''))
   \<and> sum2 (kernel (the (patterns ''lichen''))) = 4
   \<and> sum3 (kernel (the (patterns3d ''coral''))) = 1"
  using kernel_weights [of "''lichen''" "the (patterns ''lichen'')" "the (patterns3d ''coral'')"]
    kernel_weights [of "''coral''" "the (patterns ''coral'')" "the (patterns3d ''coral'')"]
  by (simp add: patterns_def patterns3d_def)

section \<open>Periodic boundaries\<close>

lemma wrap_less: "0 < n \<Longrightarrow> wrap n i a < n"
  by (simp add: wrap_def nat_less_iff)

lemma wrap_centre: "i < n \<Longrightarrow> wrap n i (Suc 0) = i"
  by (simp add: wrap_def)

lemma wrap_next: "0 < n \<Longrightarrow> wrap n i 0 = (i + 1) mod n"
  by (simp add: wrap_def nat_mod_distrib nat_add_distrib flip: of_nat_Suc)

lemma wrap_prev: "0 < n \<Longrightarrow> i < n \<Longrightarrow> wrap n i 2 = (i + n - 1) mod n"
proof -
  assume n: "0 < n" and i: "i < n"
  have "(int i + 1 - int 2) mod int n = (int i + 1 - int 2 + int n) mod int n"
    by simp
  also have "int i + 1 - int 2 + int n = int (i + n - 1)"
    using n by (simp add: of_nat_diff)
  finally have "(int i + 1 - int 2) mod int n = int ((i + n - 1) mod n)"
    by (simp add: zmod_int)
  then show ?thesis by (simp add: wrap_def)
qed

lemma wrap_last_first: "0 < n \<Longrightarrow> wrap n (n - Suc 0) 0 = 0"
  by (simp add: wrap_next)

lemma wrap_first_last: "0 < n \<Longrightarrow> wrap n 0 2 = n - Suc 0"
  by (simp add: wrap_prev)

lemma wrap_next_neq: "2 \<le> n \<Longrightarrow> i < n \<Longrightarrow> wrap n i 0 \<noteq> i"
  by (cases "i + 1 = n") (simp_all add: wrap_next)

lemma wrap_prev_neq: "2 \<le> n \<Longrightarrow> i < n \<Longrightarrow> wrap n i 2 \<noteq> i"
  by (cases "i = 0") (auto simp add: wrap_prev mod_if)

lemma wrap_last_prev: "3 \<le> n \<Longrightarrow> wrap n (n - Suc 0) 2 = n - 2"
  by (simp add: wrap_prev mod_if)

lemma wrap_first_next: "3 \<le> n \<Longrightarrow> wrap n 0 0 = Suc 0"
  by (simp add: wrap_next)

lemma convolve2_nth:
  assumes "shaped2 h w g" and "i < h" and "j < w"
  shows "convolve2 g k ! i ! j =
    (\<Sum>a\<leftarrow>[0, 1, 2]. \<Sum>b\<leftarrow>[0, 1, 2]. k ! a ! b * g ! wrap h i a ! wrap w j b)"
  using assms by (simp add: convolve2_def shaped2_nrows shaped2_ncols nth_tabulate2)

lemma single2_nth: "i < h \<Longrightarrow> j < w \<Longrightarrow> single2 h w i0 j0 ! i ! j = (if i = i0 \<and> j = j0 then 1 else 0)"
  by (simp add: single2_def nth_tabulate2)

lemma shaped2_single2: "shaped2 h w (single2 h w i0 j0)"
  by (simp add: single2_def shaped2_tabulate2)


lemma edge_rows_b: "3 \<le> h \<Longrightarrow> 3 \<le> w \<Longrightarrow> j0 < w \<Longrightarrow> convolve2 (single2 h w (h - 1) j0) k ! 0 ! j0 = k ! 2 ! 1"
  by (auto simp add: convolve2_nth[OF shaped2_single2] single2_nth wrap_less wrap_centre wrap_first_last
     wrap_next_neq wrap_prev_neq wrap_first_next)

lemma edge_cols_a: "3 \<le> h \<Longrightarrow> 3 \<le> w \<Longrightarrow> i0 < h \<Longrightarrow> convolve2 (single2 h w i0 0) k ! i0 ! (w - 1) = k ! 1 ! 0"
  by (auto simp add: convolve2_nth[OF shaped2_single2] single2_nth wrap_less wrap_centre wrap_last_first
     wrap_next_neq wrap_prev_neq wrap_last_prev)

lemma edge_cols_b: "3 \<le> h \<Longrightarrow> 3 \<le> w \<Longrightarrow> i0 < h \<Longrightarrow> convolve2 (single2 h w i0 (w - 1)) k ! i0 ! 0 = k ! 1 ! 2"
  by (auto simp add: convolve2_nth[OF shaped2_single2] single2_nth wrap_less wrap_centre wrap_first_last
     wrap_next_neq wrap_prev_neq wrap_first_next)


lemma convolve3_nth:
  assumes "shaped3 d h w (cells g)" and "z < d" and "y < h" and "x < w"
  shows "convolve3 g k ! z ! y ! x =
    astype (dtype g)
      (\<Sum>a\<leftarrow>[0, 1, 2]. \<Sum>b\<leftarrow>[0, 1, 2]. \<Sum>c\<leftarrow>[0, 1, 2].
         k ! a ! b ! c * cells g ! wrap d z a ! wrap h y b ! wrap w x c)"
proof -
  from assms have "shaped2 h w (hd (cells g))" by (simp add: shaped3_hd)
  with assms have "length (cells g) = d" "nrows (hd (cells g)) = h" "ncols (hd (cells g)) = w"
    by (simp_all add: shaped2_nrows shaped2_ncols shaped3_def)
  with assms show ?thesis by (simp add: convolve3_def nth_tabulate3)
qed

lemma single3_nth: "z < d \<Longrightarrow> y < h \<Longrightarrow> x < w \<Longrightarrow>
   single3 d h w z0 y0 x0 ! z ! y ! x = (if z = z0 \<and> y = y0 \<and> x = x0 then 1 else 0)"
  by (simp add: single3_def nth_tabulate3)

lemma shaped3_single3: "shaped3 d h w (single3 d h w z0 y0 x0)"
  by (simp add: single3_def shaped3_tabulate3)

lemma shaped3_cells_single3:
  "shaped3 d h w (cells \<lparr>dtype = t, cells = single3 d h w z0 y0 x0\<rparr>)"
  by (simp add: shaped3_single3)


lemma edge3_z': "3 \<le> d \<Longrightarrow> 3 \<le> h \<Longrightarrow> 3 \<le> w \<Longrightarrow> y0 < h \<Longrightarrow> x0 < w \<Longrightarrow>
   convolve3 \<lparr>dtype = t, cells = single3 d h w (d - 1) y0 x0\<rparr> k ! 0 ! y0 ! x0
     = astype t (k ! 2 ! 1 ! 1)"
  by (auto simp add: convolve3_nth[OF shaped3_cells_single3] single3_nth wrap_less wrap_centre
     wrap_first_last wrap_next_neq wrap_prev_neq wrap_first_next)



















section \<open>Mycelium noise\<close>

lemma next_grid2_shaped: "shaped2 h w g \<Longrightarrow> 0 < h \<Longrightarrow> shaped2 h w (next_grid2 p g)"
  by (simp add: next_grid2_def shaped2_nrows shaped2_ncols shaped2_tabulate2 split_beta Let_def)

lemma next_grid2_binary:
  "shaped2 h w g \<Longrightarrow> i < h \<Longrightarrow> j < w \<Longrightarrow> next_grid2 p g ! i ! j = 0 \<or> next_grid2 p g ! i ! j = 1"
  by (simp add: next_grid2_def shaped2_nrows shaped2_ncols nth_tabulate2 split_beta Let_def)

lemma add_noise_nth:
  "shaped2 h w g \<Longrightarrow> i < h \<Longrightarrow> j < w \<Longrightarrow>
     add_noise u g ! i ! j = clip (g ! i ! j + u (i * w + j) * (1 / 10)) 0 1"
  by (simp add: add_noise_def shaped2_nrows shaped2_ncols nth_tabulate2)

text \<open>
  C4 as stated: the mycelium noise is applied in both engines. The three-dimensional
  \<open>grow\<close> draws no random numbers: on a one-cell dead grid the mycelium rule leaves
  the cell at exactly 0, where the two-dimensional \<open>grow\<close> on the same grid with
  uniform samples 1/2 stores 1/20.
\<close>

theorem mycelium_3d_no_noise_counterexample:
  "grow3d ''mycelium'' 1
     \<lparr>width3 = 1, height3 = 1, depth = 1, grid3 = float_array [[[0]]], history = [float_array [[[0]]]]\<rparr>
     = Inr \<lparr>width3 = 1, height3 = 1, depth = 1, grid3 = float_array [[[0]]],
            history = [float_array [[[0]]], float_array [[[0]]]]\<rparr>
   \<and> grow ''mycelium'' (constant_samples (1 / 2)) \<lparr>width = 1, height = 1, grid = [[0]]\<rparr>
     = Inr (\<lparr>width = 1, height = 1, grid = [[1 / 20]]\<rparr>, 1)"
proof -
  have n3: "next_grid3 (the (patterns3d ''mycelium'')) (float_array [[[0]]]) = float_array [[[0]]]"
    by code_simp
  have n2: "add_noise (constant_samples (1 / 2)) (next_grid2 (the (patterns ''mycelium'')) [[0]])
      = [[1 / 20]]"
    by code_simp
  have c: "count_active [[1 / 20]] = 1"
    by (simp add: count_active_def)
  have a: "grow3d ''mycelium'' 1
     \<lparr>width3 = 1, height3 = 1, depth = 1, grid3 = float_array [[[0]]], history = [float_array [[[0]]]]\<rparr>
     = Inr \<lparr>width3 = 1, height3 = 1, depth = 1, grid3 = float_array [[[0]]],
            history = [float_array [[[0]]], float_array [[[0]]]]\<rparr>"
    using n3 by (simp add: grow3d_def patterns3d_def Let_def)
  have b: "grow ''mycelium'' (constant_samples (1 / 2)) \<lparr>width = 1, height = 1, grid = [[0]]\<rparr>
     = Inr (\<lparr>width = 1, height = 1, grid = [[1 / 20]]\<rparr>, 1)"
    using n2 c by (simp add: grow_def patterns_def Let_def)
  from a b show ?thesis ..
qed

text \<open>
  C4 as amended: the two-dimensional \<open>grow\<close> selects the noise by the rule name.
  For \<open>mycelium\<close> every cell of the next grid becomes the clipped sum of its 0/1 value
  and a tenth of its uniform sample, so it rises by less than 0.1 and stays in [0, 1];
  for every other two-dimensional rule the stored grid is the 0/1 grid, whatever the
  random source. The three-dimensional \<open>grow\<close> stores the 0/1 grid for every rule,
  mycelium included.
\<close>

theorem mycelium_noise:
  assumes "patterns pt = Some p" and "shaped2 h w (grid s)" and "i < h" and "j < w"
    and "0 \<le> u (i * w + j)" and "u (i * w + j) < 1"
  shows "(\<exists>s' a. grow pt u s = Inr (s', a)
      \<and> (pt = ''mycelium'' \<longrightarrow>
           grid s' ! i ! j = clip (next_grid2 p (grid s) ! i ! j + u (i * w + j) * (1 / 10)) 0 1
           \<and> next_grid2 p (grid s) ! i ! j \<le> grid s' ! i ! j
           \<and> grid s' ! i ! j < next_grid2 p (grid s) ! i ! j + 1 / 10
           \<and> 0 \<le> grid s' ! i ! j \<and> grid s' ! i ! j \<le> 1)
      \<and> (pt \<noteq> ''mycelium'' \<longrightarrow> grid s' = next_grid2 p (grid s)))
    \<and> (patterns3d pt3 = Some q \<longrightarrow>
         (\<exists>s3'. grow3d pt3 1 s3 = Inr s3' \<and> grid3 s3' = next_grid3 q (grid3 s3)))"
proof -
  let ?n = "next_grid2 p (grid s)"
  from assms have sh: "shaped2 h w ?n"
    by (simp add: next_grid2_shaped)
  have bin: "?n ! i ! j = 0 \<or> ?n ! i ! j = 1"
    using assms by (simp add: next_grid2_binary)
  have cell: "add_noise u ?n ! i ! j = clip (?n ! i ! j + u (i * w + j) * (1 / 10)) 0 1"
    using sh assms by (simp add: add_noise_nth)
  have bounds: "?n ! i ! j \<le> clip (?n ! i ! j + u (i * w + j) * (1 / 10)) 0 1
      \<and> clip (?n ! i ! j + u (i * w + j) * (1 / 10)) 0 1 < ?n ! i ! j + 1 / 10
      \<and> 0 \<le> clip (?n ! i ! j + u (i * w + j) * (1 / 10)) 0 1
      \<and> clip (?n ! i ! j + u (i * w + j) * (1 / 10)) 0 1 \<le> 1"
    using bin assms(5,6) by (auto simp add: clip_def min_def max_def)
  have two: "\<exists>s' a. grow pt u s = Inr (s', a)
      \<and> (pt = ''mycelium'' \<longrightarrow>
           grid s' ! i ! j = clip (?n ! i ! j + u (i * w + j) * (1 / 10)) 0 1
           \<and> ?n ! i ! j \<le> grid s' ! i ! j
           \<and> grid s' ! i ! j < ?n ! i ! j + 1 / 10
           \<and> 0 \<le> grid s' ! i ! j \<and> grid s' ! i ! j \<le> 1)
      \<and> (pt \<noteq> ''mycelium'' \<longrightarrow> grid s' = ?n)"
    using assms(1) cell bounds by (simp add: grow_def Let_def)
  have three: "patterns3d pt3 = Some q \<longrightarrow>
         (\<exists>s3'. grow3d pt3 1 s3 = Inr s3' \<and> grid3 s3' = next_grid3 q (grid3 s3))"
    by (simp add: grow3d_def Let_def)
  from two three show ?thesis ..
qed


theorem mycelium_noise_witness:
  "patterns ''mycelium'' = Some (the (patterns ''mycelium''))
   \<and> patterns ''coral'' = Some (the (patterns ''coral''))
   \<and> patterns3d ''mycelium'' = Some (the (patterns3d ''mycelium''))
   \<and> shaped2 1 1 [[0]] \<and> (0::nat) < 1
   \<and> 0 \<le> constant_samples (1 / 2) (0 * 1 + 0) \<and> constant_samples (1 / 2) (0 * 1 + 0) < 1
   \<and> (\<exists>s' a. grow ''mycelium'' (constant_samples (1 / 2)) \<lparr>width = 1, height = 1, grid = [[0]]\<rparr>
               = Inr (s', a) \<and> grid s' ! 0 ! 0 = 1 / 20)
   \<and> (\<exists>s' a. grow ''coral'' (constant_samples (1 / 2)) \<lparr>width = 1, height = 1, grid = [[0]]\<rparr>
               = Inr (s', a) \<and> grid s' = [[0]])
   \<and> (\<exists>s3'. grow3d ''mycelium'' 1
               \<lparr>width3 = 1, height3 = 1, depth = 1, grid3 = float_array [[[0]]], history = [float_array [[[0]]]]\<rparr>
               = Inr s3' \<and> grid3 s3' = float_array [[[0]]])"
proof -
  have pm: "patterns ''mycelium'' = Some (the (patterns ''mycelium''))"
    and pc: "patterns ''coral'' = Some (the (patterns ''coral''))"
    by (simp_all add: patterns_def)
  have p3: "patterns3d ''mycelium'' = Some (the (patterns3d ''mycelium''))"
    by (simp add: patterns3d_def)
  have sh: "shaped2 1 1 (grid \<lparr>width = 1, height = 1, grid = [[0]]\<rparr>)"
    by (simp add: shaped2_def)
  have i: "(0::nat) < 1"
    by simp
  have lo: "0 \<le> constant_samples (1 / 2) (0 * 1 + 0)"
    and hi: "constant_samples (1 / 2) (0 * 1 + 0) < 1"
    by (simp_all add: constant_samples_def)
  have nm: "next_grid2 (the (patterns ''mycelium'')) [[0]] = [[0]]"
    and nc: "next_grid2 (the (patterns ''coral'')) [[0]] = [[0]]"
    by code_simp+
  have n3: "next_grid3 (the (patterns3d ''mycelium'')) (float_array [[[0]]]) = float_array [[[0]]]"
    by code_simp
  note m = mycelium_noise [where u = "constant_samples (1 / 2)" and i = 0 and j = 0
      and h = 1 and w = 1 and s = "\<lparr>width = 1, height = 1, grid = [[0]]\<rparr>"
      and ?pt3.0 = "''mycelium''" and q = "the (patterns3d ''mycelium'')"
      and ?s3.0 = "\<lparr>width3 = 1, height3 = 1, depth = 1, grid3 = float_array [[[0]]], history = [float_array [[[0]]]]\<rparr>",
      OF pm sh i i lo hi]
  note c = mycelium_noise [where u = "constant_samples (1 / 2)" and i = 0 and j = 0
      and h = 1 and w = 1 and s = "\<lparr>width = 1, height = 1, grid = [[0]]\<rparr>"
      and ?pt3.0 = "''mycelium''" and q = "the (patterns3d ''mycelium'')"
      and ?s3.0 = "\<lparr>width3 = 1, height3 = 1, depth = 1, grid3 = float_array [[[0]]], history = [float_array [[[0]]]]\<rparr>",
      OF pc sh i i lo hi]
  from m c show ?thesis
    using pm pc p3 sh lo hi
    by (auto simp add: nm nc n3 clip_def constant_samples_def)
qed

section \<open>Determinism and history\<close>

lemma grids_after_deterministic:
  "pt \<noteq> ''mycelium'' \<Longrightarrow> grid s1 = grid s2 \<Longrightarrow>
     grids_after pt us1 n s1 = grids_after pt us2 n s2"
proof (induction n arbitrary: s1 s2 us1 us2)
  case 0
  show ?case by simp
next
  case (Suc n)
  show ?case
  proof (cases "patterns pt")
    case None
    then show ?thesis by (simp add: grow_def)
  next
    case (Some p)
    let ?g1 = "s1\<lparr>grid := next_grid2 p (grid s1)\<rparr>"
    let ?g2 = "s2\<lparr>grid := next_grid2 p (grid s2)\<rparr>"
    have "grid ?g1 = grid ?g2" using Suc.prems by simp
    from Suc.IH [OF Suc.prems(1) this]
    show ?thesis using Some Suc.prems by (simp add: grow_def Let_def)
  qed
qed

lemma grow_loop_grid: "grid3 (grow_loop p n s) = last (grid3 s # grids3 p n (grid3 s))"
  by (induction n arbitrary: s) (simp_all add: Let_def)

lemma grow_loop_history: "history (grow_loop p n s) = history s @ grids3 p n (grid3 s)"
  by (induction n arbitrary: s) (simp_all add: Let_def)

lemma grow_loop_shape:
  "width3 (grow_loop p n s) = width3 s \<and> height3 (grow_loop p n s) = height3 s
   \<and> depth (grow_loop p n s) = depth s"
  by (induction n arbitrary: s) (simp_all add: Let_def)

lemma length_grids3: "length (grids3 p n g) = n"
  by (induction n arbitrary: g) simp_all

text \<open>
  C5. Growth without noise is deterministic. Two two-dimensional generators that hold the
  same grid and grow the same rule other than mycelium go through the same grids, whatever
  their random sources; two three-dimensional generators that hold the same grid and grow
  the same rule for the same number of generations end on the same grid and append the
  same snapshots.
\<close>

theorem growth_deterministic:
  assumes "pt \<noteq> ''mycelium''" and "grid s1 = grid s2"
    and "patterns3d pt3 = Some q" and "grid3 e1 = grid3 e2"
  shows "grids_after pt us1 n s1 = grids_after pt us2 n s2
    \<and> (\<exists>e1' e2'. grow3d pt3 m e1 = Inr e1' \<and> grow3d pt3 m e2 = Inr e2'
          \<and> grid3 e1' = grid3 e2'
          \<and> history e1' = history e1 @ grids3 q (nat m) (grid3 e1)
          \<and> history e2' = history e2 @ grids3 q (nat m) (grid3 e1))"
  using assms grids_after_deterministic [of pt s1 s2 us1 n us2]
  by (simp add: grow3d_def grow_loop_grid grow_loop_history)


theorem growth_deterministic_witness:
  "''coral'' \<noteq> ''mycelium''
   \<and> grid \<lparr>width = 3, height = 1, grid = [[0, 1, 1]]\<rparr> = grid \<lparr>width = 3, height = 1, grid = [[0, 1, 1]]\<rparr>
   \<and> patterns3d ''crystal'' = Some (the (patterns3d ''crystal''))
   \<and> grids_after ''coral'' (\<lambda>_. constant_samples (1 / 2)) 2 \<lparr>width = 3, height = 1, grid = [[0, 1, 1]]\<rparr>
       = grids_after ''coral'' (\<lambda>_. constant_samples (1 / 4)) 2 \<lparr>width = 3, height = 1, grid = [[0, 1, 1]]\<rparr>
   \<and> (\<exists>e1' e2'.
         grow3d ''crystal'' 2 \<lparr>width3 = 1, height3 = 1, depth = 1, grid3 = float_array [[[1]]], history = [float_array [[[1]]]]\<rparr>
           = Inr e1'
       \<and> grow3d ''crystal'' 2 \<lparr>width3 = 1, height3 = 1, depth = 1, grid3 = float_array [[[1]]], history = []\<rparr>
           = Inr e2'
       \<and> grid3 e1' = grid3 e2')"
proof -
  have a: "''coral'' \<noteq> ''mycelium''"
    by simp
  have b: "grid \<lparr>width = 3, height = 1, grid = [[0, 1, 1]]\<rparr>
      = grid \<lparr>width = 3, height = 1, grid = [[0, 1, 1]]\<rparr>"
    by simp
  have c: "patterns3d ''crystal'' = Some (the (patterns3d ''crystal''))"
    by (simp add: patterns3d_def)
  have d: "grid3 \<lparr>width3 = 1, height3 = 1, depth = 1, grid3 = float_array [[[1]]], history = [float_array [[[1]]]]\<rparr>
      = grid3 \<lparr>width3 = 1, height3 = 1, depth = 1, grid3 = float_array [[[1]]], history = []\<rparr>"
    by simp
  from growth_deterministic [OF a b c d,
      of "\<lambda>_. constant_samples (1 / 2)" 2 "\<lambda>_. constant_samples (1 / 4)" 2]
  show ?thesis using a c by auto
qed

text \<open>
  C6. The three-dimensional \<open>grow\<close> with \<open>generations = 0\<close> returns successfully
  and changes nothing: the grid is the input grid and the history gains no snapshot.
\<close>

theorem grow_zero_generations:
  assumes "patterns3d pt = Some q"
  shows "\<exists>s'. grow3d pt 0 s = Inr s' \<and> s' = s \<and> grid3 s' = grid3 s \<and> history s' = history s"
  using assms by (simp add: grow3d_def)

theorem grow_zero_generations_witness:
  "patterns3d ''coral'' = Some (the (patterns3d ''coral''))
   \<and> grow3d ''coral'' 0 \<lparr>width3 = 1, height3 = 1, depth = 1, grid3 = float_array [[[1]]], history = [float_array [[[1]]]]\<rparr>
       = Inr \<lparr>width3 = 1, height3 = 1, depth = 1, grid3 = float_array [[[1]]], history = [float_array [[[1]]]]\<rparr>"
proof -
  have a: "patterns3d ''coral'' = Some (the (patterns3d ''coral''))"
    by (simp add: patterns3d_def)
  from grow_zero_generations [OF a,
      of "\<lparr>width3 = 1, height3 = 1, depth = 1, grid3 = float_array [[[1]]], history = [float_array [[[1]]]]\<rparr>"]
  show ?thesis using a by simp
qed

lemma grow3d_one:
  "grow3d pt 1 s = Inr s' \<Longrightarrow> history s' = history s @ [grid3 s']"
  by (auto simp add: grow3d_def Let_def split: option.splits)

lemma grow_calls_append:
  "grow_calls (xs @ ys) s = Inr s' \<Longrightarrow>
     \<exists>sk. grow_calls xs s = Inr sk \<and> grow_calls ys sk = Inr s'"
  by (induction xs arbitrary: s) (auto split: sum.splits)

lemma grow_calls_history:
  "grow_calls pts s = Inr s' \<Longrightarrow> \<exists>gs. history s' = history s @ gs \<and> length gs = length pts
     \<and> grid3 s' = last (grid3 s # gs)"
proof (induction pts arbitrary: s)
  case Nil
  then show ?case by simp
next
  case (Cons pt rest)
  from Cons.prems obtain s1 where one: "grow3d pt 1 s = Inr s1" and rest: "grow_calls rest s1 = Inr s'"
    by (auto split: sum.splits)
  from Cons.IH [OF rest] obtain gs where gs: "history s' = history s1 @ gs"
      "length gs = length rest" "grid3 s' = last (grid3 s1 # gs)"
    by blast
  from grow3d_one [OF one] gs
  have "history s' = history s @ (grid3 s1 # gs) \<and> length (grid3 s1 # gs) = length (pt # rest)
      \<and> grid3 s' = last (grid3 s # grid3 s1 # gs)"
    by simp
  then show ?case by blast
qed

lemma seed_center3d_fresh: "history (seed_center3d r s) = [grid3 (seed_center3d r s)]"
  by (simp add: seed_center3d_def Let_def)

lemma seed_random3d_fresh: "seed_random3d d u s = Inr s0 \<Longrightarrow> history s0 = [grid3 s0]"
  by (auto simp add: seed_random3d_def Let_def split: sum.splits)

text \<open>
  C7. From a fresh seed (\<open>seed_center\<close>, or a successful \<open>seed_random\<close>), after N
  successful \<open>grow\<close> calls of one generation each the history holds N + 1 snapshots,
  in generation order: snapshot \<open>k\<close> is the grid the generator held after the first
  \<open>k\<close> calls, snapshot 0 being the seeded grid.
\<close>

theorem history_length:
  assumes seed: "s0 = seed_center3d r s \<or> seed_random3d d u s = Inr s0"
    and calls: "grow_calls pts s0 = Inr s'"
    and k: "k \<le> length pts"
  shows "length (history s') = length pts + 1
    \<and> (\<exists>sk. grow_calls (take k pts) s0 = Inr sk \<and> history s' ! k = grid3 sk)"
proof -
  from seed have fresh: "history s0 = [grid3 s0]"
    using seed_center3d_fresh seed_random3d_fresh by blast
  from grow_calls_history [OF calls] fresh have len: "length (history s') = length pts + 1"
    by auto
  from calls have "grow_calls (take k pts @ drop k pts) s0 = Inr s'"
    by simp
  from grow_calls_append [OF this] obtain sk
    where sk: "grow_calls (take k pts) s0 = Inr sk" and rest: "grow_calls (drop k pts) sk = Inr s'"
    by blast
  from grow_calls_history [OF sk] fresh k obtain gs
    where gs: "history sk = grid3 s0 # gs" "length gs = k" "grid3 sk = last (grid3 s0 # gs)"
    by (auto simp add: min_def)
  from grow_calls_history [OF rest] obtain hs where hs: "history s' = history sk @ hs"
    by blast
  have "history s' = (grid3 s0 # gs) @ hs" and "k < length (grid3 s0 # gs)"
    using gs hs by simp_all
  then have "history s' ! k = (grid3 s0 # gs) ! k"
    by (simp only: nth_append if_True)
  moreover have "last (grid3 s0 # gs) = (grid3 s0 # gs) ! (length (grid3 s0 # gs) - 1)"
    by (rule last_conv_nth) simp
  ultimately have "history s' ! k = grid3 sk"
    using gs(2,3) by simp
  with len sk show ?thesis by blast
qed


theorem history_length_witness:
  "(seed_center3d 0 \<lparr>width3 = 1, height3 = 1, depth = 1, grid3 = float_array [[[0]]], history = []\<rparr>
      = seed_center3d 0 \<lparr>width3 = 1, height3 = 1, depth = 1, grid3 = float_array [[[0]]], history = []\<rparr>
    \<or> seed_random3d 1 (constant_samples (1 / 2))
          \<lparr>width3 = 1, height3 = 1, depth = 1, grid3 = float_array [[[0]]], history = []\<rparr>
      = Inr (seed_center3d 0 \<lparr>width3 = 1, height3 = 1, depth = 1, grid3 = float_array [[[0]]], history = []\<rparr>))
   \<and> grow_calls [''coral'', ''crystal'']
        (seed_center3d 0 \<lparr>width3 = 1, height3 = 1, depth = 1, grid3 = float_array [[[0]]], history = []\<rparr>)
      = Inr \<lparr>width3 = 1, height3 = 1, depth = 1, grid3 = float_array [[[0]]],
              history = [float_array [[[1]]], float_array [[[0]]], float_array [[[0]]]]\<rparr>
   \<and> (1::nat) \<le> length [''coral'', ''crystal'']
   \<and> length (history \<lparr>width3 = 1, height3 = 1, depth = 1, grid3 = float_array [[[0]]],
              history = [float_array [[[1]]], float_array [[[0]]], float_array [[[0]]]]\<rparr>) = length [''coral'', ''crystal''] + 1
   \<and> (\<exists>sk. grow_calls (take 1 [''coral'', ''crystal''])
              (seed_center3d 0 \<lparr>width3 = 1, height3 = 1, depth = 1, grid3 = float_array [[[0]]], history = []\<rparr>)
            = Inr sk
          \<and> [float_array [[[1]]], float_array [[[0]]], float_array [[[0]]]] ! 1 = grid3 sk)"
proof -
  let ?e = "\<lparr>width3 = 1, height3 = 1, depth = 1, grid3 = float_array [[[0]]], history = []\<rparr>"
  let ?s' = "\<lparr>width3 = 1, height3 = 1, depth = 1, grid3 = float_array [[[0]]],
              history = [float_array [[[1]]], float_array [[[0]]], float_array [[[0]]]]\<rparr>"
  have seed: "seed_center3d 0 ?e = seed_center3d 0 ?e
      \<or> seed_random3d 1 (constant_samples (1 / 2)) ?e = Inr (seed_center3d 0 ?e)"
    by simp
  have calls: "grow_calls [''coral'', ''crystal''] (seed_center3d 0 ?e) = Inr ?s'"
    by code_simp
  have k: "(1::nat) \<le> length [''coral'', ''crystal'']"
    by simp
  from history_length [OF seed calls k] show ?thesis
    using seed calls k by simp
qed

section \<open>Environment modulation and seeding\<close>

lemma linspace_half_bounds:
  assumes "i < h"
  shows "1 / 2 \<le> linspace (1 / 2) 1 h i \<and> linspace (1 / 2) 1 h i \<le> 1"
proof (cases "h = 1")
  case True
  then show ?thesis by (simp add: linspace_def)
next
  case False
  with assms have h: "2 \<le> h" by simp
  let ?t = "rat_of_nat i / rat_of_nat (h - 1)"
  have pos: "0 < rat_of_nat (h - 1)" using h by simp
  have "rat_of_nat i \<le> rat_of_nat (h - 1)" using assms by simp
  with pos have t1: "?t \<le> 1" by (simp add: divide_le_eq)
  have t0: "0 \<le> ?t" by simp
  have "linspace (1 / 2) 1 h i = 1 / 2 + ?t * (1 / 2)"
    using False by (simp add: linspace_def)
  with t0 t1 show ?thesis by simp
qed

lemma moisture_bounds:
  "i < h \<Longrightarrow> 1 / 2 \<le> moisture_gradient h w i j \<and> moisture_gradient h w i j \<le> 1"
  using linspace_half_bounds [of i h] by (simp add: moisture_gradient_def)

lemma light_bounds: "3 / 10 \<le> light_gradient h w i j \<and> light_gradient h w i j \<le> 1"
  by (simp add: light_gradient_def clip_def Let_def)



lemma attenuate: "0 \<le> (c::rat) \<Longrightarrow> g \<le> 1 \<Longrightarrow> c * g \<le> c"
  by (simp add: mult_left_le)

text \<open>
  C8. Environment modulation only attenuates. On a generator whose grid has its declared
  shape, every cell with a non-negative value is, after \<open>add_environment\<close>, at most
  its value before, for the moisture and the light field (and any other factor name,
  which changes nothing). The new value is the old one times a gradient that is a function
  of the grid shape, the field kind and the cell position only; no random source enters.
\<close>

theorem environment_attenuates:
  assumes "shaped2 (height s) (width s) (grid s)" and "i < height s" and "j < width s"
    and "0 \<le> grid s ! i ! j"
  shows "grid (add_environment factor s) ! i ! j \<le> grid s ! i ! j
    \<and> grid (add_environment ''moisture'' s) ! i ! j
        = grid s ! i ! j * moisture_gradient (height s) (width s) i j
    \<and> grid (add_environment ''light'' s) ! i ! j
        = grid s ! i ! j * light_gradient (height s) (width s) i j
    \<and> shaped2 (height s) (width s) (grid (add_environment factor s))"
proof -
  have m: "grid s ! i ! j * moisture_gradient (height s) (width s) i j \<le> grid s ! i ! j"
    using assms moisture_bounds [of i "height s" "width s" j] by (simp add: attenuate)
  have l: "grid s ! i ! j * light_gradient (height s) (width s) i j \<le> grid s ! i ! j"
    using assms light_bounds [of "height s" "width s" i j] by (simp add: attenuate)
  from m l assms show ?thesis
    by (simp add: add_environment_def nth_tabulate2 shaped2_tabulate2)
qed


theorem environment_attenuates_witness:
  "shaped2 (height \<lparr>width = 2, height = 2, grid = [[1, 1], [1, 1]]\<rparr>)
      (width \<lparr>width = 2, height = 2, grid = [[1, 1], [1, 1]]\<rparr>)
      (grid \<lparr>width = 2, height = 2, grid = [[1, 1], [1, 1]]\<rparr>)
   \<and> (0::nat) < height \<lparr>width = 2, height = 2, grid = [[1, 1], [1, 1]]\<rparr>
   \<and> (0::nat) < width \<lparr>width = 2, height = 2, grid = [[1, 1], [1, 1]]\<rparr>
   \<and> 0 \<le> grid \<lparr>width = 2, height = 2, grid = [[1, 1], [1, 1]]\<rparr> ! 0 ! 0
   \<and> grid (add_environment ''light'' \<lparr>width = 2, height = 2, grid = [[1, 1], [1, 1]]\<rparr>) ! 0 ! 0
       \<le> 1
   \<and> grid (add_environment ''light'' \<lparr>width = 2, height = 2, grid = [[1, 1], [1, 1]]\<rparr>) ! 0 ! 0
       = 3 / 10
   \<and> grid (add_environment ''moisture'' \<lparr>width = 2, height = 2, grid = [[1, 1], [1, 1]]\<rparr>) ! 0 ! 0
       = 1 / 2"
proof -
  let ?s = "\<lparr>width = 2, height = 2, grid = [[1, 1], [1, 1]]\<rparr>"
  have a: "shaped2 (height ?s) (width ?s) (grid ?s)"
    by (simp add: shaped2_def)
  have b: "0 < height ?s" and c: "0 < width ?s" and d: "0 \<le> grid ?s ! 0 ! 0"
    by simp_all
  have l: "light_gradient 2 2 0 0 = 3 / 10" and m: "moisture_gradient 2 2 0 0 = 1 / 2"
    by code_simp+
  from environment_attenuates [OF a b c d, of "''light''"] show ?thesis
    using a l m by simp
qed








text \<open>
  C9. \<open>seed_random\<close> with a density outside [0, 1] fails at the call, with the
  ValueError that the sampling routine raises for a negative probability; with a density
  inside [0, 1] it succeeds and every cell of the seeded grid is 0 or 1. Both generators.
\<close>

theorem seed_random_density:
  assumes "i < height s" and "j < width s"
    and "z < depth e" and "y < height3 e" and "x < width3 e"
  shows "(density < 0 \<or> 1 < density \<longrightarrow>
            seed_random density u s = Inl ValueError
            \<and> seed_random3d density u e = Inl ValueError)
    \<and> (0 \<le> density \<and> density \<le> 1 \<longrightarrow>
          (\<exists>s' e'. seed_random density u s = Inr s' \<and> seed_random3d density u e = Inr e'
             \<and> shaped2 (height s) (width s) (grid s')
             \<and> shaped3 (depth e) (height3 e) (width3 e) (cells (grid3 e'))
             \<and> (grid s' ! i ! j = 0 \<or> grid s' ! i ! j = 1)
             \<and> (cells (grid3 e') ! z ! y ! x = 0 \<or> cells (grid3 e') ! z ! y ! x = 1)))"
proof -
  have bad: "density < 0 \<or> 1 < density \<longrightarrow>
      seed_random density u s = Inl ValueError \<and> seed_random3d density u e = Inl ValueError"
    by (auto simp add: seed_random_def seed_random3d_def np_random_choice_def)
  have good: "0 \<le> density \<and> density \<le> 1 \<longrightarrow>
      (\<exists>s' e'. seed_random density u s = Inr s' \<and> seed_random3d density u e = Inr e'
         \<and> shaped2 (height s) (width s) (grid s')
         \<and> shaped3 (depth e) (height3 e) (width3 e) (cells (grid3 e'))
         \<and> (grid s' ! i ! j = 0 \<or> grid s' ! i ! j = 1)
         \<and> (cells (grid3 e') ! z ! y ! x = 0 \<or> cells (grid3 e') ! z ! y ! x = 1))"
    using assms
    by (simp add: seed_random_def seed_random3d_def np_random_choice_def Let_def
        nth_tabulate2 nth_tabulate3 shaped2_tabulate2 shaped3_tabulate3)
  from bad good show ?thesis ..
qed

theorem seed_random_density_witness:
  "(0::nat) < height \<lparr>width = 1, height = 1, grid = [[0]]\<rparr>
   \<and> (0::nat) < width \<lparr>width = 1, height = 1, grid = [[0]]\<rparr>
   \<and> (0::nat) < depth \<lparr>width3 = 1, height3 = 1, depth = 1, grid3 = float_array [[[0]]], history = []\<rparr>
   \<and> ((3 / 2 :: rat) < 0 \<or> (1::rat) < 3 / 2) \<and> ((- 1 / 2 :: rat) < 0 \<or> (1::rat) < - 1 / 2)
   \<and> ((0::rat) \<le> 1 / 2 \<and> (1 / 2 :: rat) \<le> 1)
   \<and> seed_random (3 / 2) (constant_samples (1 / 4)) \<lparr>width = 1, height = 1, grid = [[0]]\<rparr>
       = Inl ValueError
   \<and> seed_random3d (- 1 / 2) (constant_samples (1 / 4))
        \<lparr>width3 = 1, height3 = 1, depth = 1, grid3 = float_array [[[0]]], history = []\<rparr> = Inl ValueError
   \<and> seed_random (1 / 2) (constant_samples (1 / 4)) \<lparr>width = 1, height = 1, grid = [[0]]\<rparr>
       = Inr \<lparr>width = 1, height = 1, grid = [[0]]\<rparr>
   \<and> seed_random3d (1 / 2) (constant_samples (3 / 4))
        \<lparr>width3 = 1, height3 = 1, depth = 1, grid3 = float_array [[[0]]], history = []\<rparr>
       = Inr \<lparr>width3 = 1, height3 = 1, depth = 1, grid3 = int_array [[[1]]], history = [int_array [[[1]]]]\<rparr>"
proof -
  let ?s = "\<lparr>width = 1, height = 1, grid = [[0]]\<rparr>"
  let ?e = "\<lparr>width3 = 1, height3 = 1, depth = 1, grid3 = float_array [[[0]]], history = []\<rparr>"
  have a: "0 < height ?s" and b: "0 < width ?s"
    and c: "0 < depth ?e" and d: "0 < height3 ?e" and f: "0 < width3 ?e"
    by simp_all
  have g2: "seed_random (1 / 2) (constant_samples (1 / 4)) ?s = Inr ?s"
    by code_simp
  have g3: "seed_random3d (1 / 2) (constant_samples (3 / 4)) ?e
      = Inr \<lparr>width3 = 1, height3 = 1, depth = 1, grid3 = int_array [[[1]]], history = [int_array [[[1]]]]\<rparr>"
    by code_simp
  from seed_random_density [OF a b c d f, of "3 / 2" "constant_samples (1 / 4)"]
    seed_random_density [OF a b c d f, of "- 1 / 2" "constant_samples (1 / 4)"]
    seed_random_density [OF a b c d f, of "1 / 2" "constant_samples (1 / 4)"]
  show ?thesis using g2 g3 by simp
qed

end
